theory Spec2Isabelle
  imports Main "HOL-Library.Sublist"
begin

section \<open>Data model\<close>

text \<open>
  The HTTP exceptions of \<^verbatim>\<open>@nestjs/common\<close> that the two services import, each with
  its message. A service method that throws returns \<open>Inl\<close> of one of them.
\<close>

datatype http_exception =
    ConflictException string
  | UnauthorizedException string
  | InternalServerErrorException string
  | NotFoundException string

text \<open>
  The \<^verbatim>\<open>User\<close> entity, with the columns the service reads and writes. The column
  \<open>username\<close> is the primary key (\<^verbatim>\<open>usersRepo.update(oldUser.username, user)\<close> addresses
  a row by it); \<open>avatar\<close> is nullable.
\<close>

record user =
  username :: string
  pass :: string
  name :: string
  surname :: string
  email :: string
  avatar :: "string option"

text \<open>
  The request payloads. Record fields share one name space, so the fields of a payload
  carry a prefix: \<open>reg_\<close> for \<^verbatim>\<open>UserRegisterDTO\<close>, \<open>cred_\<close> for
  \<^verbatim>\<open>AuthCredentialsDTO\<close>, \<open>edit_\<close> for \<^verbatim>\<open>InfoEditDTO\<close>, \<open>chg_\<close> for
  \<^verbatim>\<open>PassChangeDTO\<close> (whose \<^verbatim>\<open>pass\<close> is optional).
\<close>

record UserRegisterDTO =
  reg_username :: string
  reg_pass :: string
  reg_name :: string
  reg_surname :: string
  reg_email :: string

record AuthCredentialsDTO =
  cred_username :: string
  cred_pass :: string

record InfoEditDTO =
  edit_username :: string
  edit_name :: string
  edit_surname :: string
  edit_email :: string

record PassChangeDTO =
  chg_pass :: "string option"
  chg_newPass :: string

text \<open>
  The objects the methods return: \<^verbatim>\<open>{ jwt }\<close>, and for \<^verbatim>\<open>login\<close> the same object
  with an optional \<^verbatim>\<open>privilege\<close> key.
\<close>

record jwt_response =
  jwt :: string

record login_response = jwt_response +
  privilege :: "string option"

text \<open>
  What \<^verbatim>\<open>AuthService\<close> is given from outside: the two \<^verbatim>\<open>bcrypt\<close> functions, the
  \<^verbatim>\<open>JwtService\<close> and the two configuration values it reads
  (\<^verbatim>\<open>EnvConfigValidationSchema\<close> requires both to be strings). \<^verbatim>\<open>bcrypt.hash(data, rounds)\<close>
  draws a fresh salt on every call; here the salt is its third argument, and a method
  that hashes takes the salt of that call as a parameter.
\<close>

record deps =
  bcrypt_hash :: "string \<Rightarrow> nat \<Rightarrow> string \<Rightarrow> string"
  bcrypt_compare :: "string \<Rightarrow> string \<Rightarrow> bool"
  jwt_sign :: "string \<Rightarrow> string"
  SUPERUSER :: string
  SUPERUSER_PASS :: string

text \<open>
  The contract of \<^verbatim>\<open>bcrypt\<close> that the service relies on: a password verifies against
  every hash made from it.
\<close>

definition bcrypt_sound :: "deps \<Rightarrow> bool" where
  "bcrypt_sound d = (\<forall>p r s. bcrypt_compare d p (bcrypt_hash d p r s))"

text \<open>JavaScript truthiness of an optional string: present and not empty.\<close>

fun truthy :: "string option \<Rightarrow> bool" where
  "truthy None = False"
| "truthy (Some s) = (s \<noteq> [])"

section \<open>The user table\<close>

text \<open>
  The table behind \<^verbatim>\<open>Repository<User>\<close> is the list of its rows. A statement fails
  only where it would break the primary key; then the operation returns \<open>Inl\<close> of the
  driver's message, which the service wraps in \<^verbatim>\<open>InternalServerErrorException\<close>. A
  store that cannot be reached is outside this model.
\<close>

definition repo_findOne :: "user list \<Rightarrow> string \<Rightarrow> user option" where
  "repo_findOne tbl u = find (\<lambda>r. username r = u) tbl"

definition repo_exist :: "user list \<Rightarrow> string \<Rightarrow> bool" where
  "repo_exist tbl u = list_ex (\<lambda>r. username r = u) tbl"

definition duplicate_key :: string where
  "duplicate_key = ''duplicate key value violates unique constraint''"

definition repo_insert :: "user list \<Rightarrow> user \<Rightarrow> string + user list" where
  "repo_insert tbl usr =
     (if repo_exist tbl (username usr) then Inl duplicate_key else Inr (tbl @ [usr]))"

text \<open>
  \<^verbatim>\<open>update(key, usr)\<close> sets every column of the rows whose primary key is \<open>key\<close> to
  those of \<open>usr\<close>; no row matching is not an error.
\<close>

definition repo_update :: "user list \<Rightarrow> string \<Rightarrow> user \<Rightarrow> string + user list" where
  "repo_update tbl key usr =
     (if username usr \<noteq> key \<and> repo_exist tbl key \<and> repo_exist tbl (username usr)
      then Inl duplicate_key
      else Inr (map (\<lambda>r. if username r = key then usr else r) tbl))"


subsection \<open>The LIKE operator\<close>

text \<open>
  \<^verbatim>\<open>Like(pattern)\<close> becomes the LIKE operator of the store, which \<^verbatim>\<open>PGDriverOptions\<close>
  fixes to PostgreSQL: \<open>%\<close> stands for any run of characters, \<open>_\<close> for any one
  character, a backslash takes the next pattern character literally, and every other
  character stands for itself, upper and lower case distinct. A pattern that ends in a
  lone backslash is rejected by the store; the patterns built here end in \<open>%\<close>, and
  \<open>like_match\<close> gives such a pattern no match.
\<close>

definition backslash :: char where
  "backslash = CHR 0x5C"

fun like_match :: "string \<Rightarrow> string \<Rightarrow> bool" where
  "like_match [] t = (t = [])"
| "like_match (p # ps) [] = (p = CHR ''%'' \<and> like_match ps [])"
| "like_match (p # ps) (c # cs) =
     (if p = CHR ''%'' then like_match ps (c # cs) \<or> like_match (p # ps) cs
      else if p = CHR ''_'' then like_match ps cs
      else if p = backslash then
        (case ps of [] \<Rightarrow> False | q # qs \<Rightarrow> q = c \<and> like_match qs cs)
      else p = c \<and> like_match ps cs)"

definition like_meta :: "char \<Rightarrow> bool" where
  "like_meta c = (c = CHR ''%'' \<or> c = CHR ''_'' \<or> c = backslash)"

definition repo_find_like :: "user list \<Rightarrow> string \<Rightarrow> user list" where
  "repo_find_like tbl pattern = filter (\<lambda>r. like_match pattern (username r)) tbl"

section \<open>AuthService\<close>

text \<open>
  Every method takes the table and returns its result, \<open>Inl\<close> of the exception it
  throws or \<open>Inr\<close> of its value, together with the table as the method leaves it. The
  calls to \<^verbatim>\<open>UtilityLoggerService\<close> write a log line and nothing else; they are left out.
\<close>

definition register :: "deps \<Rightarrow> string \<Rightarrow> UserRegisterDTO \<Rightarrow> user list
    \<Rightarrow> (http_exception + unit) \<times> user list" where
  "register d salt dto tbl =
     (case repo_findOne tbl (reg_username dto) of
        Some _ \<Rightarrow>
          (Inl (ConflictException (''Username '' @ reg_username dto @ '' is already in use.'')), tbl)
      | None \<Rightarrow>
          (let hash = bcrypt_hash d (reg_pass dto) 9 salt;
               usr = \<lparr>username = reg_username dto, pass = hash, name = reg_name dto,
                      surname = reg_surname dto, email = reg_email dto, avatar = None\<rparr>
           in case repo_insert tbl usr of
                Inl msg \<Rightarrow> (Inl (InternalServerErrorException msg), tbl)
              | Inr tbl' \<Rightarrow> (Inr (), tbl')))"

definition signJWT :: "deps \<Rightarrow> string \<Rightarrow> string" where
  "signJWT d u = jwt_sign d u"

text \<open>
  \<^verbatim>\<open>login\<close> only reads the table, so it returns its result alone. Its two conditions
  are named: the one of the registered user, \<^verbatim>\<open>user && (await bcrypt.compare(pass, user.pass))\<close>,
  and the one of the superuser.
\<close>

definition registered_match :: "deps \<Rightarrow> AuthCredentialsDTO \<Rightarrow> user list \<Rightarrow> bool" where
  "registered_match d dto tbl =
     (case repo_findOne tbl (cred_username dto) of
        None \<Rightarrow> False
      | Some usr \<Rightarrow> bcrypt_compare d (cred_pass dto) (pass usr))"

definition superuser_match :: "deps \<Rightarrow> AuthCredentialsDTO \<Rightarrow> bool" where
  "superuser_match d dto =
     (cred_username dto = SUPERUSER d \<and> bcrypt_compare d (cred_pass dto) (SUPERUSER_PASS d))"

definition login :: "deps \<Rightarrow> AuthCredentialsDTO \<Rightarrow> user list \<Rightarrow> http_exception + login_response" where
  "login d dto tbl =
     (if registered_match d dto tbl
      then Inr \<lparr>jwt = signJWT d (cred_username dto), privilege = None\<rparr>
      else if superuser_match d dto
      then Inr \<lparr>jwt = signJWT d (cred_username dto), privilege = Some ''admin''\<rparr>
      else Inl (UnauthorizedException ''Check your credentials.''))"

definition selectUsers :: "string \<Rightarrow> user list \<Rightarrow> http_exception + user list" where
  "selectUsers search tbl = Inr (repo_find_like tbl (''%'' @ search @ ''%''))"

definition editInfo :: "deps \<Rightarrow> user \<Rightarrow> InfoEditDTO \<Rightarrow> user list
    \<Rightarrow> (http_exception + jwt_response) \<times> user list" where
  "editInfo d usr dto tbl =
     (let exist = (if edit_username dto \<noteq> username usr then repo_exist tbl (edit_username dto)
                   else False);
          oldUser = usr;
          usr1 = (if \<not> exist then usr\<lparr>username := edit_username dto\<rparr> else usr);
          usr2 = usr1\<lparr>name := edit_name dto, surname := edit_surname dto, email := edit_email dto\<rparr>
      in case repo_update tbl (username oldUser) usr2 of
           Inl msg \<Rightarrow> (Inl (InternalServerErrorException msg), tbl)
         | Inr tbl' \<Rightarrow>
             if exist
             then (Inl (ConflictException
                          (''Username '' @ edit_username dto @ '' is already in use.'')), tbl')
             else (Inr \<lparr>jwt = signJWT d (edit_username dto)\<rparr>, tbl'))"

definition changePass :: "deps \<Rightarrow> string \<Rightarrow> user \<Rightarrow> PassChangeDTO \<Rightarrow> user list
    \<Rightarrow> (http_exception + unit) \<times> user list" where
  "changePass d salt usr dto tbl =
     (if (case chg_pass dto of None \<Rightarrow> False
          | Some p \<Rightarrow> truthy (Some p) \<and> \<not> bcrypt_compare d p (pass usr))
      then (Inl (ConflictException ''Invalid current password.''), tbl)
      else
        (let hash = bcrypt_hash d (chg_newPass dto) 9 salt;
             usr' = usr\<lparr>pass := hash\<rparr>
         in case repo_update tbl (username usr') usr' of
              Inl msg \<Rightarrow> (Inl (InternalServerErrorException msg), tbl)
            | Inr tbl' \<Rightarrow> (Inr (), tbl')))"







section \<open>ActionsService\<close>

text \<open>
  The \<^verbatim>\<open>Action\<close> entity as the controller's test builds it; \<open>performedAt\<close> is the
  time stamp in milliseconds, \<open>user\<close> the eagerly loaded owner.
\<close>

datatype ActionType = CLICK | SCROLL | INPUT

record action =
  action_id :: string
  action_type :: ActionType
  component :: string
  performedAt :: int
  action_value :: "string option"
  url :: string
  user :: user

record ActionsFilterDTO =
  limit :: nat
  search :: "string option"

text \<open>
  \<^verbatim>\<open>find({ where, take, order: { performedAt: 'DESC' } })\<close>: the rows that satisfy the
  condition, newest first, cut to \<open>take\<close> rows. A \<open>take\<close> of 0 is falsy, the query
  then carries no LIMIT and every such row is returned. A condition on the relation
  \<open>user\<close> is a condition on its join column, the owner's \<open>username\<close>.
\<close>

definition order_desc :: "action list \<Rightarrow> action list" where
  "order_desc rows = sort_key (\<lambda>a. - performedAt a) rows"

definition repo_take :: "nat \<Rightarrow> action list \<Rightarrow> action list" where
  "repo_take n rows = (if n = 0 then rows else take n rows)"

definition selectActions :: "ActionsFilterDTO \<Rightarrow> action list \<Rightarrow> http_exception + action list" where
  "selectActions dto tbl =
     (let cond = (case search dto of
                    None \<Rightarrow> (\<lambda>a. True)
                  | Some s \<Rightarrow>
                      if truthy (Some s)
                      then (\<lambda>a. like_match (''%'' @ s @ ''%'') (username (user a)))
                      else (\<lambda>a. True))
      in Inr (repo_take (limit dto) (order_desc (filter cond tbl))))"

text \<open>\<^verbatim>\<open>delete(id)\<close> returns the number of rows it removed as \<^verbatim>\<open>affected\<close>.\<close>

definition repo_delete :: "action list \<Rightarrow> string \<Rightarrow> nat \<times> action list" where
  "repo_delete tbl i =
     (length (filter (\<lambda>a. action_id a = i) tbl), filter (\<lambda>a. action_id a \<noteq> i) tbl)"

definition removeAction :: "string \<Rightarrow> action list \<Rightarrow> (http_exception + bool) \<times> action list" where
  "removeAction i tbl =
     (case repo_delete tbl i of (affected, tbl') \<Rightarrow>
        if affected = 0 then (Inr False, tbl') else (Inr True, tbl'))"

section \<open>The specification's reading of the user search\<close>

text \<open>
  The specification describes \<^verbatim>\<open>searchUsers\<close> as a substring match that ignores case.
  \<open>spec_searchUsers\<close> is that description, with both sides folded to upper case as the
  controller's test does with \<^verbatim>\<open>toUpperCase\<close>.
\<close>

definition upper_char :: "char \<Rightarrow> char" where
  "upper_char c =
     (let n = (of_char c :: nat) in if 97 \<le> n \<and> n \<le> 122 then char_of (n - 32) else c)"

definition toUpperCase :: "string \<Rightarrow> string" where
  "toUpperCase s = map upper_char s"

definition spec_searchUsers :: "string \<Rightarrow> user list \<Rightarrow> user list" where
  "spec_searchUsers s tbl = filter (\<lambda>r. sublist (toUpperCase s) (toUpperCase (username r))) tbl"

section \<open>Example collaborators and rows\<close>

text \<open>
  A small instance of the collaborators on which the methods can be run: the hash of a
  password is the password behind a mark, the token of a name is the name behind
  \<open>jwt:\<close>, and the configured superuser is \<open>root\<close> with the password \<open>toor\<close>.
\<close>

definition demo_deps :: deps where
  "demo_deps =
     \<lparr>bcrypt_hash = (\<lambda>p r s. CHR ''#'' # p),
      bcrypt_compare = (\<lambda>p h. h = CHR ''#'' # p),
      jwt_sign = (\<lambda>u. ''jwt:'' @ u),
      SUPERUSER = ''root'',
      SUPERUSER_PASS = ''#toor''\<rparr>"

definition demo_user :: "string \<Rightarrow> string \<Rightarrow> user" where
  "demo_user u h =
     \<lparr>username = u, pass = h, name = ''N'', surname = ''S'', email = ''e@x'', avatar = None\<rparr>"

definition demo_action :: "string \<Rightarrow> int \<Rightarrow> string \<Rightarrow> action" where
  "demo_action i t u =
     \<lparr>action_id = i, action_type = CLICK, component = ''<button>'', performedAt = t,
      action_value = None, url = ''http://guessmygeo.com'', user = demo_user u ''#pw''\<rparr>"

section \<open>Facts about the user table\<close>

lemma repo_exist_set: "repo_exist tbl u \<longleftrightarrow> (\<exists>r\<in>set tbl. username r = u)"
  by (simp add: repo_exist_def list_ex_iff)

lemma repo_findOne_None: "repo_findOne tbl u = None \<longleftrightarrow> \<not> repo_exist tbl u"
  by (auto simp: repo_findOne_def repo_exist_set find_None_iff)

lemma repo_findOne_append:
  "repo_findOne tbl u = None \<Longrightarrow>
   repo_findOne (tbl @ [r]) u = (if username r = u then Some r else None)"
  by (induction tbl) (auto simp: repo_findOne_def)

lemma repo_findOne_replace:
  "repo_exist tbl k \<Longrightarrow> username usr = k \<Longrightarrow>
   repo_findOne (map (\<lambda>r. if username r = k then usr else r) tbl) k = Some usr"
  by (induction tbl) (auto simp: repo_findOne_def repo_exist_def)

section \<open>Registration and login\<close>

lemma register_fresh:
  "repo_findOne tbl (reg_username dto) = None \<Longrightarrow>
   register d salt dto tbl =
     (Inr (), tbl @ [\<lparr>username = reg_username dto, pass = bcrypt_hash d (reg_pass dto) 9 salt,
                      name = reg_name dto, surname = reg_surname dto, email = reg_email dto,
                      avatar = None\<rparr>])"
proof -
  assume none: "repo_findOne tbl (reg_username dto) = None"
  then have "\<not> repo_exist tbl (reg_username dto)"
    by (simp add: repo_findOne_None)
  with none show ?thesis
    by (simp add: register_def repo_insert_def)
qed

lemma register_taken:
  "repo_findOne tbl (reg_username dto) = Some r \<Longrightarrow>
   register d salt dto tbl =
     (Inl (ConflictException (''Username '' @ reg_username dto @ '' is already in use.'')), tbl)"
  by (simp add: register_def)

text \<open>
  Claim C2. When no row has the name \<open>u\<close>, the first \<^verbatim>\<open>register\<close> of \<open>u\<close> succeeds, a
  second one (with any password, profile and salt) fails with \<^verbatim>\<open>Conflict\<close> and leaves the
  table as the first call left it, with exactly one row for \<open>u\<close>.
\<close>

theorem register_twice_conflict:
  assumes "repo_findOne tbl (reg_username dto) = None"
    and "reg_username dto' = reg_username dto"
  shows "fst (register d salt dto tbl) = Inr () \<and>
         register d salt' dto' (snd (register d salt dto tbl)) =
           (Inl (ConflictException (''Username '' @ reg_username dto @ '' is already in use.'')),
            snd (register d salt dto tbl)) \<and>
         length (filter (\<lambda>r. username r = reg_username dto)
                   (snd (register d salt' dto' (snd (register d salt dto tbl))))) = 1"
proof -
  let ?u = "\<lparr>username = reg_username dto, pass = bcrypt_hash d (reg_pass dto) 9 salt,
              name = reg_name dto, surname = reg_surname dto, email = reg_email dto,
              avatar = None\<rparr>"
  have first: "register d salt dto tbl = (Inr (), tbl @ [?u])"
    using assms(1) by (rule register_fresh)
  have "repo_findOne (tbl @ [?u]) (reg_username dto') = Some ?u"
    using assms by (simp add: repo_findOne_append)
  then have second: "register d salt' dto' (tbl @ [?u]) =
      (Inl (ConflictException (''Username '' @ reg_username dto' @ '' is already in use.'')), tbl @ [?u])"
    by (rule register_taken)
  have "\<not> repo_exist tbl (reg_username dto)"
    using assms(1) by (simp add: repo_findOne_None)
  then have "filter (\<lambda>r. username r = reg_username dto) tbl = []"
    by (auto simp: repo_exist_set filter_empty_conv)
  then show ?thesis
    using first second assms(2) by simp
qed

theorem register_twice_conflict_witness:
  "repo_findOne [] ''alice'' = None \<and>
   fst (register demo_deps ''s1'' \<lparr>reg_username = ''alice'', reg_pass = ''pw1'', reg_name = ''A'',
          reg_surname = ''L'', reg_email = ''a@x''\<rparr> []) = Inr () \<and>
   register demo_deps ''s2'' \<lparr>reg_username = ''alice'', reg_pass = ''pw2'', reg_name = ''A'',
          reg_surname = ''L'', reg_email = ''a@x''\<rparr>
     (snd (register demo_deps ''s1'' \<lparr>reg_username = ''alice'', reg_pass = ''pw1'', reg_name = ''A'',
          reg_surname = ''L'', reg_email = ''a@x''\<rparr> [])) =
     (Inl (ConflictException ''Username alice is already in use.''),
      [\<lparr>username = ''alice'', pass = ''#pw1'', name = ''A'', surname = ''L'', email = ''a@x'',
        avatar = None\<rparr>])"
  using register_twice_conflict [of "[]"
      "\<lparr>reg_username = ''alice'', reg_pass = ''pw1'', reg_name = ''A'',
          reg_surname = ''L'', reg_email = ''a@x''\<rparr>"
      "\<lparr>reg_username = ''alice'', reg_pass = ''pw2'', reg_name = ''A'',
          reg_surname = ''L'', reg_email = ''a@x''\<rparr>" demo_deps "''s1''" "''s2''"]
  by (simp add: repo_findOne_def register_def repo_insert_def repo_exist_def demo_deps_def)

text \<open>
  Claim C1, as the code has it. After a successful \<^verbatim>\<open>register\<close>, \<^verbatim>\<open>login\<close> with the same
  name and password returns a token without privilege. With a password that does not
  verify against the stored hash, \<^verbatim>\<open>login\<close> fails with \<^verbatim>\<open>Unauthorized\<close>, unless name and
  password are those of the configured superuser: then the second condition of
  \<^verbatim>\<open>login\<close> holds and the token carries the privilege \<open>admin\<close>.
\<close>

theorem login_after_register:
  assumes "bcrypt_sound d"
    and "register d salt dto tbl = (Inr (), tbl')"
  shows "login d \<lparr>cred_username = reg_username dto, cred_pass = reg_pass dto\<rparr> tbl' =
           Inr \<lparr>jwt = signJWT d (reg_username dto), privilege = None\<rparr> \<and>
         (\<forall>wrong. \<not> bcrypt_compare d wrong (bcrypt_hash d (reg_pass dto) 9 salt) \<longrightarrow>
            login d \<lparr>cred_username = reg_username dto, cred_pass = wrong\<rparr> tbl' =
              (if superuser_match d \<lparr>cred_username = reg_username dto, cred_pass = wrong\<rparr>
               then Inr \<lparr>jwt = signJWT d (reg_username dto), privilege = Some ''admin''\<rparr>
               else Inl (UnauthorizedException ''Check your credentials.'')))"
proof -
  let ?u = "\<lparr>username = reg_username dto, pass = bcrypt_hash d (reg_pass dto) 9 salt,
              name = reg_name dto, surname = reg_surname dto, email = reg_email dto,
              avatar = None\<rparr>"
  have none: "repo_findOne tbl (reg_username dto) = None"
  proof (cases "repo_findOne tbl (reg_username dto)")
    case None
    then show ?thesis .
  next
    case (Some r)
    then have "register d salt dto tbl =
        (Inl (ConflictException (''Username '' @ reg_username dto @ '' is already in use.'')), tbl)"
      by (rule register_taken)
    with assms(2) show ?thesis by simp
  qed
  then have "register d salt dto tbl = (Inr (), tbl @ [?u])"
    by (rule register_fresh)
  with assms(2) have tbl': "tbl' = tbl @ [?u]"
    by simp
  have found: "repo_findOne tbl' (reg_username dto) = Some ?u"
    using none by (simp add: tbl' repo_findOne_append)
  have ok: "bcrypt_compare d (reg_pass dto) (bcrypt_hash d (reg_pass dto) 9 salt)"
    using assms(1) by (simp add: bcrypt_sound_def)
  show ?thesis
    using found ok by (simp add: login_def registered_match_def)
qed

theorem login_after_register_witness:
  "bcrypt_sound demo_deps \<and>
   register demo_deps ''s1'' \<lparr>reg_username = ''alice'', reg_pass = ''pw1'', reg_name = ''A'',
          reg_surname = ''L'', reg_email = ''a@x''\<rparr> [] =
     (Inr (), [\<lparr>username = ''alice'', pass = ''#pw1'', name = ''A'', surname = ''L'',
               email = ''a@x'', avatar = None\<rparr>]) \<and>
   login demo_deps \<lparr>cred_username = ''alice'', cred_pass = ''pw1''\<rparr>
     [\<lparr>username = ''alice'', pass = ''#pw1'', name = ''A'', surname = ''L'',
               email = ''a@x'', avatar = None\<rparr>] =
     Inr \<lparr>jwt = ''jwt:alice'', privilege = None\<rparr> \<and>
   login demo_deps \<lparr>cred_username = ''alice'', cred_pass = ''wrongpw''\<rparr>
     [\<lparr>username = ''alice'', pass = ''#pw1'', name = ''A'', surname = ''L'',
               email = ''a@x'', avatar = None\<rparr>] =
     Inl (UnauthorizedException ''Check your credentials.'')"
proof -
  have s: "bcrypt_sound demo_deps"
    by (simp add: bcrypt_sound_def demo_deps_def)
  have r: "register demo_deps ''s1'' \<lparr>reg_username = ''alice'', reg_pass = ''pw1'', reg_name = ''A'',
          reg_surname = ''L'', reg_email = ''a@x''\<rparr> [] =
     (Inr (), [\<lparr>username = ''alice'', pass = ''#pw1'', name = ''A'', surname = ''L'',
               email = ''a@x'', avatar = None\<rparr>])"
    by (simp add: register_def repo_findOne_def repo_insert_def repo_exist_def demo_deps_def)
  have w: "\<not> bcrypt_compare demo_deps ''wrongpw'' (bcrypt_hash demo_deps ''pw1'' 9 ''s1'')"
    by (simp add: demo_deps_def)
  have n: "\<not> superuser_match demo_deps \<lparr>cred_username = ''alice'', cred_pass = ''wrongpw''\<rparr>"
    by (simp add: superuser_match_def demo_deps_def)
  from login_after_register [OF s r] w n show ?thesis
    using s r by (simp add: signJWT_def demo_deps_def)
qed

text \<open>
  The exception is real: a user may register under the superuser's name, and the
  superuser's password then logs in although it is not the registered one.
\<close>

theorem login_wrong_password_counterexample:
  "register demo_deps ''s1'' \<lparr>reg_username = ''root'', reg_pass = ''mine'', reg_name = ''A'',
          reg_surname = ''L'', reg_email = ''a@x''\<rparr> [] =
     (Inr (), [\<lparr>username = ''root'', pass = ''#mine'', name = ''A'', surname = ''L'',
               email = ''a@x'', avatar = None\<rparr>]) \<and>
   \<not> bcrypt_compare demo_deps ''toor'' ''#mine'' \<and>
   login demo_deps \<lparr>cred_username = ''root'', cred_pass = ''toor''\<rparr>
     [\<lparr>username = ''root'', pass = ''#mine'', name = ''A'', surname = ''L'',
               email = ''a@x'', avatar = None\<rparr>] =
     Inr \<lparr>jwt = ''jwt:root'', privilege = Some ''admin''\<rparr>"
  by (simp add: register_def repo_findOne_def repo_insert_def repo_exist_def demo_deps_def
      login_def registered_match_def superuser_match_def signJWT_def)

text \<open>
  Claim C3, as the code has it. The registered user is tried first. Where no stored row
  verifies the credentials, \<^verbatim>\<open>login\<close> succeeds exactly if they are the superuser's, the
  token then carries \<open>admin\<close>, and any two such tables give the same result. Where a
  stored row verifies them, the token carries no privilege, whatever the configuration
  says. Credentials of the superuser log in on every table, with a token for that name.
\<close>

theorem login_superuser_path:
  "(\<not> registered_match d dto tbl \<longrightarrow>
      login d dto tbl =
        (if superuser_match d dto
         then Inr \<lparr>jwt = signJWT d (cred_username dto), privilege = Some ''admin''\<rparr>
         else Inl (UnauthorizedException ''Check your credentials.''))) \<and>
   (registered_match d dto tbl \<longrightarrow>
      login d dto tbl = Inr \<lparr>jwt = signJWT d (cred_username dto), privilege = None\<rparr>) \<and>
   (\<not> registered_match d dto tbl \<and> \<not> registered_match d dto tbl2 \<longrightarrow>
      login d dto tbl = login d dto tbl2) \<and>
   (superuser_match d dto \<longrightarrow> (\<exists>r. login d dto tbl = Inr r \<and> jwt r = signJWT d (SUPERUSER d)))"
  by (auto simp: login_def superuser_match_def)

theorem login_superuser_path_witness:
  "\<not> registered_match demo_deps \<lparr>cred_username = ''root'', cred_pass = ''toor''\<rparr> [] \<and>
   \<not> registered_match demo_deps \<lparr>cred_username = ''root'', cred_pass = ''toor''\<rparr>
        [demo_user ''alice'' ''#pw1''] \<and>
   registered_match demo_deps \<lparr>cred_username = ''alice'', cred_pass = ''pw1''\<rparr>
        [demo_user ''alice'' ''#pw1''] \<and>
   superuser_match demo_deps \<lparr>cred_username = ''root'', cred_pass = ''toor''\<rparr> \<and>
   login demo_deps \<lparr>cred_username = ''root'', cred_pass = ''toor''\<rparr> [] =
     Inr \<lparr>jwt = ''jwt:root'', privilege = Some ''admin''\<rparr> \<and>
   login demo_deps \<lparr>cred_username = ''root'', cred_pass = ''toor''\<rparr> [] =
     login demo_deps \<lparr>cred_username = ''root'', cred_pass = ''toor''\<rparr> [demo_user ''alice'' ''#pw1''] \<and>
   login demo_deps \<lparr>cred_username = ''alice'', cred_pass = ''pw1''\<rparr> [demo_user ''alice'' ''#pw1''] =
     Inr \<lparr>jwt = ''jwt:alice'', privilege = None\<rparr>"
proof -
  have a: "\<not> registered_match demo_deps \<lparr>cred_username = ''root'', cred_pass = ''toor''\<rparr> []"
    by (simp add: registered_match_def repo_findOne_def)
  have b: "\<not> registered_match demo_deps \<lparr>cred_username = ''root'', cred_pass = ''toor''\<rparr>
        [demo_user ''alice'' ''#pw1'']"
    by (simp add: registered_match_def repo_findOne_def demo_user_def)
  have c: "registered_match demo_deps \<lparr>cred_username = ''alice'', cred_pass = ''pw1''\<rparr>
        [demo_user ''alice'' ''#pw1'']"
    by (simp add: registered_match_def repo_findOne_def demo_user_def demo_deps_def)
  have s: "superuser_match demo_deps \<lparr>cred_username = ''root'', cred_pass = ''toor''\<rparr>"
    by (simp add: superuser_match_def demo_deps_def)
  note t1 = login_superuser_path [of demo_deps "\<lparr>cred_username = ''root'', cred_pass = ''toor''\<rparr>"
      "[]" "[demo_user ''alice'' ''#pw1'']"]
  note t2 = login_superuser_path [of demo_deps "\<lparr>cred_username = ''alice'', cred_pass = ''pw1''\<rparr>"
      "[demo_user ''alice'' ''#pw1'']" "[]"]
  have l1: "login demo_deps \<lparr>cred_username = ''root'', cred_pass = ''toor''\<rparr> [] =
      Inr \<lparr>jwt = signJWT demo_deps ''root'', privilege = Some ''admin''\<rparr>"
    using t1 a s by simp
  have l2: "login demo_deps \<lparr>cred_username = ''root'', cred_pass = ''toor''\<rparr> [] =
     login demo_deps \<lparr>cred_username = ''root'', cred_pass = ''toor''\<rparr> [demo_user ''alice'' ''#pw1'']"
    using t1 a b by blast
  have l3: "login demo_deps \<lparr>cred_username = ''alice'', cred_pass = ''pw1''\<rparr>
      [demo_user ''alice'' ''#pw1''] =
      Inr \<lparr>jwt = signJWT demo_deps ''alice'', privilege = None\<rparr>"
    using t2 c by simp
  have j: "signJWT demo_deps ''root'' = ''jwt:root''" "signJWT demo_deps ''alice'' = ''jwt:alice''"
    by (simp_all add: signJWT_def demo_deps_def)
  show ?thesis
    using a b c s l1 l2 l3 j by simp
qed

text \<open>
  The table does matter: a row under the superuser's name with the superuser's password
  takes the privilege away, and one with another password lets that password in.
\<close>

theorem login_superuser_counterexample:
  "superuser_match demo_deps \<lparr>cred_username = ''root'', cred_pass = ''toor''\<rparr> \<and>
   login demo_deps \<lparr>cred_username = ''root'', cred_pass = ''toor''\<rparr> [] =
     Inr \<lparr>jwt = ''jwt:root'', privilege = Some ''admin''\<rparr> \<and>
   login demo_deps \<lparr>cred_username = ''root'', cred_pass = ''toor''\<rparr> [demo_user ''root'' ''#toor''] =
     Inr \<lparr>jwt = ''jwt:root'', privilege = None\<rparr> \<and>
   \<not> superuser_match demo_deps \<lparr>cred_username = ''root'', cred_pass = ''mine''\<rparr> \<and>
   login demo_deps \<lparr>cred_username = ''root'', cred_pass = ''mine''\<rparr> [demo_user ''root'' ''#mine''] =
     Inr \<lparr>jwt = ''jwt:root'', privilege = None\<rparr>"
  by (simp add: demo_deps_def login_def registered_match_def superuser_match_def signJWT_def
      repo_findOne_def demo_user_def)

section \<open>Profile edit\<close>

lemma editInfo_taken:
  assumes "edit_username dto \<noteq> username usr" and "repo_exist tbl (edit_username dto)"
  shows "editInfo d usr dto tbl =
    (Inl (ConflictException (''Username '' @ edit_username dto @ '' is already in use.'')),
     map (\<lambda>r. if username r = username usr
               then usr\<lparr>name := edit_name dto, surname := edit_surname dto, email := edit_email dto\<rparr>
               else r) tbl)"
  using assms by (simp add: editInfo_def repo_update_def Let_def)

lemma editInfo_free:
  assumes "edit_username dto = username usr \<or> \<not> repo_exist tbl (edit_username dto)"
  shows "editInfo d usr dto tbl =
    (Inr \<lparr>jwt = signJWT d (edit_username dto)\<rparr>,
     map (\<lambda>r. if username r = username usr
               then usr\<lparr>username := edit_username dto, name := edit_name dto,
                        surname := edit_surname dto, email := edit_email dto\<rparr>
               else r) tbl)"
  using assms by (auto simp: editInfo_def repo_update_def Let_def)

text \<open>
  Claim C4. When the new name differs from the caller's and a row has it,
  \<^verbatim>\<open>editInfo\<close> fails with \<^verbatim>\<open>Conflict\<close>, after the update has been written: the caller's
  row keeps its \<open>username\<close> and holds the new \<open>name\<close>, \<open>surname\<close> and \<open>email\<close>, and no
  other row changes.
\<close>

theorem editInfo_conflict_persists:
  assumes "edit_username dto \<noteq> username usr"
    and "repo_exist tbl (edit_username dto)"
    and "repo_exist tbl (username usr)"
  shows "fst (editInfo d usr dto tbl) =
           Inl (ConflictException (''Username '' @ edit_username dto @ '' is already in use.'')) \<and>
         repo_findOne (snd (editInfo d usr dto tbl)) (username usr) =
           Some (usr\<lparr>name := edit_name dto, surname := edit_surname dto, email := edit_email dto\<rparr>) \<and>
         map username (snd (editInfo d usr dto tbl)) = map username tbl \<and>
         (\<forall>r\<in>set tbl. username r \<noteq> username usr \<longrightarrow> r \<in> set (snd (editInfo d usr dto tbl)))"
proof -
  let ?new = "usr\<lparr>name := edit_name dto, surname := edit_surname dto, email := edit_email dto\<rparr>"
  let ?tbl' = "map (\<lambda>r. if username r = username usr then ?new else r) tbl"
  have run: "editInfo d usr dto tbl =
    (Inl (ConflictException (''Username '' @ edit_username dto @ '' is already in use.'')), ?tbl')"
    using assms(1,2) by (rule editInfo_taken)
  from assms(3) have found: "repo_findOne ?tbl' (username usr) = Some ?new"
    by (rule repo_findOne_replace) simp
  have names: "map username ?tbl' = map username tbl"
    by (induction tbl) auto
  have rest: "\<forall>r\<in>set tbl. username r \<noteq> username usr \<longrightarrow> r \<in> set ?tbl'"
    by (auto simp: image_iff)
  show ?thesis
    using found names rest by (simp add: run)
qed

theorem editInfo_conflict_persists_witness:
  "edit_username \<lparr>edit_username = ''bob'', edit_name = ''A2'', edit_surname = ''L2'',
       edit_email = ''a2@x''\<rparr> \<noteq> username (demo_user ''alice'' ''#pw1'') \<and>
   repo_exist [demo_user ''alice'' ''#pw1'', demo_user ''bob'' ''#pw2''] ''bob'' \<and>
   repo_exist [demo_user ''alice'' ''#pw1'', demo_user ''bob'' ''#pw2''] ''alice'' \<and>
   editInfo demo_deps (demo_user ''alice'' ''#pw1'')
       \<lparr>edit_username = ''bob'', edit_name = ''A2'', edit_surname = ''L2'', edit_email = ''a2@x''\<rparr>
       [demo_user ''alice'' ''#pw1'', demo_user ''bob'' ''#pw2''] =
     (Inl (ConflictException ''Username bob is already in use.''),
      [\<lparr>username = ''alice'', pass = ''#pw1'', name = ''A2'', surname = ''L2'', email = ''a2@x'',
        avatar = None\<rparr>, demo_user ''bob'' ''#pw2''])"
proof -
  let ?dto = "\<lparr>edit_username = ''bob'', edit_name = ''A2'', edit_surname = ''L2'',
       edit_email = ''a2@x''\<rparr>"
  let ?tbl = "[demo_user ''alice'' ''#pw1'', demo_user ''bob'' ''#pw2'']"
  have a: "edit_username ?dto \<noteq> username (demo_user ''alice'' ''#pw1'')"
    by (simp add: demo_user_def)
  have b: "repo_exist ?tbl (edit_username ?dto)"
    by (simp add: repo_exist_def demo_user_def)
  have c: "repo_exist ?tbl (username (demo_user ''alice'' ''#pw1''))"
    by (simp add: repo_exist_def demo_user_def)
  note t = editInfo_conflict_persists [OF a b c, of demo_deps]
  have e: "editInfo demo_deps (demo_user ''alice'' ''#pw1'') ?dto ?tbl =
     (Inl (ConflictException ''Username bob is already in use.''),
      [\<lparr>username = ''alice'', pass = ''#pw1'', name = ''A2'', surname = ''L2'', email = ''a2@x'',
        avatar = None\<rparr>, demo_user ''bob'' ''#pw2''])"
    by (simp add: editInfo_def repo_exist_def repo_update_def demo_user_def)
  show ?thesis
    using t a b c e by (simp add: demo_user_def)
qed

text \<open>
  Claim C10. \<^verbatim>\<open>editInfo\<close> raises \<^verbatim>\<open>Conflict\<close> exactly when the new name differs from the
  caller's and a row has it. When the submitted name is the caller's own, the table is
  not asked, the caller's row receives \<open>name\<close>, \<open>surname\<close> and \<open>email\<close>, and a token
  for the name is returned, also when a row with that name is in the table.
\<close>

theorem editInfo_conflict_iff:
  "((\<exists>m. fst (editInfo d usr dto tbl) = Inl (ConflictException m)) \<longleftrightarrow>
      edit_username dto \<noteq> username usr \<and> repo_exist tbl (edit_username dto)) \<and>
   (edit_username dto = username usr \<longrightarrow>
      editInfo d usr dto tbl =
        (Inr \<lparr>jwt = signJWT d (username usr)\<rparr>,
         map (\<lambda>r. if username r = username usr
                   then usr\<lparr>name := edit_name dto, surname := edit_surname dto,
                            email := edit_email dto\<rparr>
                   else r) tbl))"
proof (cases "edit_username dto \<noteq> username usr \<and> repo_exist tbl (edit_username dto)")
  case True
  then show ?thesis
    by (simp add: editInfo_taken)
next
  case False
  then have free: "edit_username dto = username usr \<or> \<not> repo_exist tbl (edit_username dto)"
    by blast
  have same: "edit_username dto = username usr \<Longrightarrow> usr\<lparr>username := edit_username dto\<rparr> = usr"
    by simp
  show ?thesis
    using False same by (auto simp: editInfo_free [OF free])
qed

theorem editInfo_conflict_iff_witness:
  "repo_exist [demo_user ''alice'' ''#pw1'', demo_user ''bob'' ''#pw2''] ''alice'' \<and>
   editInfo demo_deps (demo_user ''alice'' ''#pw1'')
       \<lparr>edit_username = ''alice'', edit_name = ''A2'', edit_surname = ''L2'', edit_email = ''a2@x''\<rparr>
       [demo_user ''alice'' ''#pw1'', demo_user ''bob'' ''#pw2''] =
     (Inr \<lparr>jwt = ''jwt:alice''\<rparr>,
      [\<lparr>username = ''alice'', pass = ''#pw1'', name = ''A2'', surname = ''L2'', email = ''a2@x'',
        avatar = None\<rparr>, demo_user ''bob'' ''#pw2'']) \<and>
   (\<exists>m. fst (editInfo demo_deps (demo_user ''alice'' ''#pw1'')
       \<lparr>edit_username = ''bob'', edit_name = ''A2'', edit_surname = ''L2'', edit_email = ''a2@x''\<rparr>
       [demo_user ''alice'' ''#pw1'', demo_user ''bob'' ''#pw2'']) = Inl (ConflictException m))"
proof -
  let ?tbl = "[demo_user ''alice'' ''#pw1'', demo_user ''bob'' ''#pw2'']"
  have x: "repo_exist ?tbl ''alice''" "repo_exist ?tbl ''bob''"
    by (simp_all add: repo_exist_def demo_user_def)
  have j: "signJWT demo_deps ''alice'' = ''jwt:alice''"
    by (simp add: signJWT_def demo_deps_def)
  from editInfo_conflict_iff [of demo_deps "demo_user ''alice'' ''#pw1''"
      "\<lparr>edit_username = ''alice'', edit_name = ''A2'', edit_surname = ''L2'', edit_email = ''a2@x''\<rparr>" ?tbl]
  have same: "editInfo demo_deps (demo_user ''alice'' ''#pw1'')
       \<lparr>edit_username = ''alice'', edit_name = ''A2'', edit_surname = ''L2'', edit_email = ''a2@x''\<rparr>
       ?tbl =
     (Inr \<lparr>jwt = ''jwt:alice''\<rparr>,
      [\<lparr>username = ''alice'', pass = ''#pw1'', name = ''A2'', surname = ''L2'', email = ''a2@x'',
        avatar = None\<rparr>, demo_user ''bob'' ''#pw2''])"
    by (simp add: j) (simp add: demo_user_def)
  from editInfo_conflict_iff [of demo_deps "demo_user ''alice'' ''#pw1''"
      "\<lparr>edit_username = ''bob'', edit_name = ''A2'', edit_surname = ''L2'', edit_email = ''a2@x''\<rparr>" ?tbl]
  have other: "\<exists>m. fst (editInfo demo_deps (demo_user ''alice'' ''#pw1'')
       \<lparr>edit_username = ''bob'', edit_name = ''A2'', edit_surname = ''L2'', edit_email = ''a2@x''\<rparr>
       ?tbl) = Inl (ConflictException m)"
    using x(2) by (simp add: demo_user_def)
  show ?thesis
    using x(1) same other by simp
qed

section \<open>Password change\<close>

lemma repo_update_same_key:
  "username usr = k \<Longrightarrow>
   repo_update tbl k usr = Inr (map (\<lambda>r. if username r = k then usr else r) tbl)"
  by (simp add: repo_update_def)

text \<open>
  Claim C9, as the code has it. A current password that is present and not empty must
  verify against the caller's hash: if it does not, \<^verbatim>\<open>changePass\<close> fails with
  \<^verbatim>\<open>Conflict\<close> and the table is unchanged. In every other case (the current password
  verifies, is absent, or is the empty string, which \<^verbatim>\<open>if (pass)\<close> takes as absent) the
  new password is hashed and the caller's row receives the hash.
\<close>

theorem changePass_cases:
  "(\<forall>p. chg_pass dto = Some p \<and> p \<noteq> [] \<and> \<not> bcrypt_compare d p (pass usr) \<longrightarrow>
      changePass d salt usr dto tbl = (Inl (ConflictException ''Invalid current password.''), tbl)) \<and>
   (chg_pass dto = None \<or> chg_pass dto = Some [] \<or>
      (\<exists>p. chg_pass dto = Some p \<and> bcrypt_compare d p (pass usr)) \<longrightarrow>
      changePass d salt usr dto tbl =
        (Inr (), map (\<lambda>r. if username r = username usr
                           then usr\<lparr>pass := bcrypt_hash d (chg_newPass dto) 9 salt\<rparr>
                           else r) tbl) \<and>
      (repo_exist tbl (username usr) \<longrightarrow>
         repo_findOne (snd (changePass d salt usr dto tbl)) (username usr) =
           Some (usr\<lparr>pass := bcrypt_hash d (chg_newPass dto) 9 salt\<rparr>)))"
proof -
  let ?new = "usr\<lparr>pass := bcrypt_hash d (chg_newPass dto) 9 salt\<rparr>"
  have found: "repo_exist tbl (username usr) \<Longrightarrow>
      repo_findOne (map (\<lambda>r. if username r = username usr then ?new else r) tbl) (username usr) =
        Some ?new"
    by (rule repo_findOne_replace) simp_all
  show ?thesis
    using found by (auto simp: changePass_def repo_update_same_key Let_def)
qed

theorem changePass_cases_witness:
  "\<not> bcrypt_compare demo_deps ''bad'' (pass (demo_user ''alice'' ''#pw1'')) \<and>
   changePass demo_deps ''s'' (demo_user ''alice'' ''#pw1'')
       \<lparr>chg_pass = Some ''bad'', chg_newPass = ''new''\<rparr> [demo_user ''alice'' ''#pw1''] =
     (Inl (ConflictException ''Invalid current password.''), [demo_user ''alice'' ''#pw1'']) \<and>
   bcrypt_compare demo_deps ''pw1'' (pass (demo_user ''alice'' ''#pw1'')) \<and>
   repo_exist [demo_user ''alice'' ''#pw1''] ''alice'' \<and>
   changePass demo_deps ''s'' (demo_user ''alice'' ''#pw1'')
       \<lparr>chg_pass = Some ''pw1'', chg_newPass = ''new''\<rparr> [demo_user ''alice'' ''#pw1''] =
     (Inr (), [demo_user ''alice'' ''#new'']) \<and>
   changePass demo_deps ''s'' (demo_user ''alice'' ''#pw1'')
       \<lparr>chg_pass = None, chg_newPass = ''new''\<rparr> [demo_user ''alice'' ''#pw1''] =
     (Inr (), [demo_user ''alice'' ''#new''])"
proof -
  let ?u = "demo_user ''alice'' ''#pw1''"
  have bad: "\<not> bcrypt_compare demo_deps ''bad'' (pass ?u)"
    and good: "bcrypt_compare demo_deps ''pw1'' (pass ?u)"
    by (simp_all add: demo_deps_def demo_user_def)
  have ex: "repo_exist [?u] ''alice''"
    by (simp add: repo_exist_def demo_user_def)
  have h: "bcrypt_hash demo_deps ''new'' 9 ''s'' = ''#new''"
    by (simp add: demo_deps_def)
  have u: "username ?u = ''alice''" "?u\<lparr>pass := ''#new''\<rparr> = demo_user ''alice'' ''#new''"
    by (simp_all add: demo_user_def)
  from changePass_cases [of "\<lparr>chg_pass = Some ''bad'', chg_newPass = ''new''\<rparr>" demo_deps ?u "''s''" "[?u]"]
  have c1: "changePass demo_deps ''s'' ?u \<lparr>chg_pass = Some ''bad'', chg_newPass = ''new''\<rparr> [?u] =
     (Inl (ConflictException ''Invalid current password.''), [?u])"
    using bad by simp
  from changePass_cases [of "\<lparr>chg_pass = Some ''pw1'', chg_newPass = ''new''\<rparr>" demo_deps ?u "''s''" "[?u]"]
  have c2: "changePass demo_deps ''s'' ?u \<lparr>chg_pass = Some ''pw1'', chg_newPass = ''new''\<rparr> [?u] =
     (Inr (), [demo_user ''alice'' ''#new''])"
    using good by (simp add: h u)
  from changePass_cases [of "\<lparr>chg_pass = None, chg_newPass = ''new''\<rparr>" demo_deps ?u "''s''" "[?u]"]
  have c3: "changePass demo_deps ''s'' ?u \<lparr>chg_pass = None, chg_newPass = ''new''\<rparr> [?u] =
     (Inr (), [demo_user ''alice'' ''#new''])"
    by (simp add: h u)
  show ?thesis
    using bad good ex c1 c2 c3 by simp
qed

text \<open>
  An empty current password is supplied and does not verify, and the password is
  changed all the same.
\<close>

theorem changePass_empty_counterexample:
  "\<not> bcrypt_compare demo_deps [] (pass (demo_user ''alice'' ''#pw1'')) \<and>
   changePass demo_deps ''s'' (demo_user ''alice'' ''#pw1'')
       \<lparr>chg_pass = Some [], chg_newPass = ''new''\<rparr> [demo_user ''alice'' ''#pw1''] =
     (Inr (), [demo_user ''alice'' ''#new''])"
  by (simp add: changePass_def repo_update_def repo_exist_def demo_deps_def demo_user_def)

section \<open>Search with LIKE\<close>

lemma like_match_percent_end: "like_match ''%'' t"
  by (induction t) simp_all

lemma like_match_literal:
  "\<forall>c\<in>set s. \<not> like_meta c \<Longrightarrow>
   like_match (s @ ps) t \<longleftrightarrow> (\<exists>r. t = s @ r \<and> like_match ps r)"
proof (induction s arbitrary: t)
  case Nil
  then show ?case by simp
next
  case (Cons a s)
  then have a: "a \<noteq> CHR ''%''" "a \<noteq> CHR ''_''" "a \<noteq> backslash"
    by (simp_all add: like_meta_def)
  from Cons have IH: "\<And>t. like_match (s @ ps) t \<longleftrightarrow> (\<exists>r. t = s @ r \<and> like_match ps r)"
    by simp
  show ?case
  proof (cases t)
    case Nil
    with a show ?thesis by simp
  next
    case (Cons c cs)
    with a IH show ?thesis by auto
  qed
qed

lemma like_match_percent:
  "like_match (CHR ''%'' # ps) t \<longleftrightarrow> (\<exists>pre r. t = pre @ r \<and> like_match ps r)"
proof (induction t)
  case Nil
  then show ?case by simp
next
  case (Cons c cs)
  show ?case
  proof
    assume "like_match (CHR ''%'' # ps) (c # cs)"
    then consider "like_match ps (c # cs)" | "like_match (CHR ''%'' # ps) cs"
      by auto
    then show "\<exists>pre r. c # cs = pre @ r \<and> like_match ps r"
    proof cases
      case 1
      then have "c # cs = [] @ (c # cs) \<and> like_match ps (c # cs)" by simp
      then show ?thesis by blast
    next
      case 2
      with Cons obtain pre r where "cs = pre @ r" "like_match ps r" by blast
      then have "c # cs = (c # pre) @ r \<and> like_match ps r" by simp
      then show ?thesis by blast
    qed
  next
    assume "\<exists>pre r. c # cs = pre @ r \<and> like_match ps r"
    then obtain pre r where pr: "c # cs = pre @ r" "like_match ps r" by blast
    show "like_match (CHR ''%'' # ps) (c # cs)"
    proof (cases pre)
      case Nil
      with pr have "like_match ps (c # cs)" by simp
      then show ?thesis by simp
    next
      case (Cons p pre')
      with pr have "cs = pre' @ r" by simp
      with pr(2) Cons.IH have "like_match (CHR ''%'' # ps) cs" by blast
      then show ?thesis by simp
    qed
  qed
qed

lemma like_match_contains:
  assumes "\<forall>c\<in>set s. \<not> like_meta c"
  shows "like_match (''%'' @ s @ ''%'') t \<longleftrightarrow> sublist s t"
proof -
  have "like_match (''%'' @ s @ ''%'') t \<longleftrightarrow>
      (\<exists>pre r. t = pre @ r \<and> like_match (s @ ''%'') r)"
    using like_match_percent [of "s @ ''%''" t] by simp
  also have "\<dots> \<longleftrightarrow> (\<exists>pre r. t = pre @ r \<and> (\<exists>post. r = s @ post \<and> like_match ''%'' post))"
    using like_match_literal [OF assms, of "''%''"] by simp
  also have "\<dots> \<longleftrightarrow> (\<exists>pre post. t = pre @ s @ post)"
    by (auto simp: like_match_percent_end)
  finally show ?thesis
    by (simp add: sublist_def)
qed

text \<open>
  Claim C6, as the code has it. \<^verbatim>\<open>selectUsers\<close> returns all the rows whose name matches
  the pattern \<open>%search%\<close>, with no bound on their number. For a search term without
  \<open>%\<close>, \<open>_\<close> and backslash these are exactly the rows whose name contains the term,
  with upper and lower case distinct.
\<close>

theorem selectUsers_contains:
  "selectUsers s tbl = Inr (filter (\<lambda>r. like_match (''%'' @ s @ ''%'') (username r)) tbl) \<and>
   ((\<forall>c\<in>set s. \<not> like_meta c) \<longrightarrow>
      selectUsers s tbl = Inr (filter (\<lambda>r. sublist s (username r)) tbl))"
proof -
  have "(\<forall>c\<in>set s. \<not> like_meta c) \<Longrightarrow>
      filter (\<lambda>r. like_match (''%'' @ s @ ''%'') (username r)) tbl =
      filter (\<lambda>r. sublist s (username r)) tbl"
    using like_match_contains [of s] by simp
  then show ?thesis
    by (simp add: selectUsers_def repo_find_like_def)
qed

theorem selectUsers_contains_witness:
  "\<not> like_meta CHR ''l'' \<and> \<not> like_meta CHR ''i'' \<and> \<not> like_meta CHR ''c'' \<and>
   selectUsers ''lic'' [demo_user ''alice'' ''#pw1'', demo_user ''bob'' ''#pw2''] =
     Inr [demo_user ''alice'' ''#pw1'']"
proof -
  have m: "\<forall>c\<in>set ''lic''. \<not> like_meta c"
    by (simp add: like_meta_def backslash_def)
  have f: "filter (\<lambda>r. sublist ''lic'' (username r))
      [demo_user ''alice'' ''#pw1'', demo_user ''bob'' ''#pw2''] = [demo_user ''alice'' ''#pw1'']"
    by (simp add: demo_user_def sublist_Cons_right prefix_Cons)
  from selectUsers_contains [of "''lic''" "[demo_user ''alice'' ''#pw1'', demo_user ''bob'' ''#pw2'']"] m
  have "selectUsers ''lic'' [demo_user ''alice'' ''#pw1'', demo_user ''bob'' ''#pw2''] =
      Inr (filter (\<lambda>r. sublist ''lic'' (username r))
        [demo_user ''alice'' ''#pw1'', demo_user ''bob'' ''#pw2''])"
    by blast
  then have "selectUsers ''lic'' [demo_user ''alice'' ''#pw1'', demo_user ''bob'' ''#pw2''] =
      Inr [demo_user ''alice'' ''#pw1'']"
    by (simp only: f)
  moreover from m have "\<not> like_meta CHR ''l'' \<and> \<not> like_meta CHR ''i'' \<and> \<not> like_meta CHR ''c''"
    by simp
  ultimately show ?thesis
    by blast
qed

text \<open>
  The search does not ignore case: the term \<open>ALICE\<close> does not find the user \<open>alice\<close>,
  whom the specification's reading returns.
\<close>

theorem selectUsers_case_counterexample:
  "selectUsers ''ALICE'' [demo_user ''alice'' ''#pw1''] = Inr [] \<and>
   spec_searchUsers ''ALICE'' [demo_user ''alice'' ''#pw1''] = [demo_user ''alice'' ''#pw1'']"
proof -
  have "selectUsers ''ALICE'' [demo_user ''alice'' ''#pw1''] = Inr []"
    by (simp add: selectUsers_def repo_find_like_def demo_user_def backslash_def)
  moreover have "toUpperCase ''alice'' = ''ALICE''" "toUpperCase ''ALICE'' = ''ALICE''"
    by code_simp+
  then have "spec_searchUsers ''ALICE'' [demo_user ''alice'' ''#pw1''] = [demo_user ''alice'' ''#pw1'']"
    by (simp add: spec_searchUsers_def demo_user_def)
  ultimately show ?thesis
    by simp
qed

section \<open>Action log\<close>

lemma order_desc_sorted:
  "sorted_wrt (\<lambda>a b. performedAt b \<le> performedAt a) (order_desc rows)"
proof -
  have "sorted (map (\<lambda>a. - performedAt a) (order_desc rows))"
    by (simp add: order_desc_def)
  then show ?thesis
    by (simp add: sorted_wrt_map)
qed

lemma order_desc_set: "set (order_desc rows) = set rows"
  by (simp add: order_desc_def)

text \<open>
  Claim C5. \<^verbatim>\<open>removeAction\<close> of an id that no row has returns \<open>false\<close>; the service
  never throws \<^verbatim>\<open>NotFoundException\<close>.
\<close>

theorem removeAction_missing_returns_false:
  "removeAction ''missing'' [demo_action ''1'' 10 ''bob''] =
     (Inr False, [demo_action ''1'' 10 ''bob''])"
  by (simp add: removeAction_def repo_delete_def demo_action_def)

lemma removeAction_existing:
  assumes "\<exists>a\<in>set tbl. action_id a = i"
  shows "fst (removeAction i tbl) = Inr True \<and>
         (\<forall>a\<in>set (snd (removeAction i tbl)). action_id a \<noteq> i) \<and>
         snd (removeAction i tbl) = filter (\<lambda>a. action_id a \<noteq> i) tbl"
proof -
  from assms have "filter (\<lambda>a. action_id a = i) tbl \<noteq> []"
    by (simp add: filter_empty_conv)
  then show ?thesis
    by (simp add: removeAction_def repo_delete_def)
qed

lemma removeAction_result:
  "fst (removeAction i tbl) = Inr (list_ex (\<lambda>a. action_id a = i) tbl)"
  by (auto simp: removeAction_def repo_delete_def list_ex_iff filter_empty_conv)

section \<open>Avatar upload\<close>






section \<open>Selecting actions\<close>

lemma selectActions_rows:
  "selectActions dto tbl =
     Inr (repo_take (limit dto) (order_desc (filter
       (\<lambda>a. \<forall>s. search dto = Some s \<and> s \<noteq> [] \<longrightarrow>
          like_match (''%'' @ s @ ''%'') (username (user a))) tbl)))"
proof (cases "search dto")
  case None
  then show ?thesis by (simp add: selectActions_def)
next
  case (Some s)
  then show ?thesis by (cases "s = []") (simp_all add: selectActions_def)
qed

lemma repo_take_length:
  "length (repo_take n rows) = (if n = 0 then length rows else min n (length rows))"
  by (simp add: repo_take_def min.commute)

lemma repo_take_sorted:
  "sorted_wrt R rows \<Longrightarrow> sorted_wrt R (repo_take n rows)"
  by (simp add: repo_take_def)

lemma repo_take_subset: "set (repo_take n rows) \<subseteq> set rows"
  by (auto simp: repo_take_def dest: in_set_takeD)

lemma repo_take_newest:
  assumes "sorted_wrt R rows" and "a \<in> set rows" and "a \<notin> set (repo_take n rows)"
    and "b \<in> set (repo_take n rows)"
  shows "R b a"
proof (cases "n = 0")
  case True
  with assms(2,3) show ?thesis by (simp add: repo_take_def)
next
  case False
  with assms(3,4) have out: "a \<notin> set (take n rows)" and inn: "b \<in> set (take n rows)"
    by (simp_all add: repo_take_def)
  have "set rows = set (take n rows) \<union> set (drop n rows)"
    by (metis append_take_drop_id set_append)
  with assms(2) out have "a \<in> set (drop n rows)"
    by blast
  moreover have "sorted_wrt R (take n rows @ drop n rows)"
    using assms(1) by simp
  ultimately show ?thesis
    using inn unfolding sorted_wrt_append by blast
qed

text \<open>
  Claim C8, as the code has it. \<^verbatim>\<open>selectActions\<close> returns the rows that satisfy the
  condition, newest first: all of them when \<open>limit\<close> is 0, and otherwise the first
  \<open>limit\<close> of them, so that their number is the smaller of \<open>limit\<close> and the number of
  such rows and no row left out is newer than a returned one. The condition holds of
  every row when the search term is absent or empty; otherwise it is that the owner's
  name matches the pattern \<open>%search%\<close>, which for a term without \<open>%\<close>, \<open>_\<close> and
  backslash says that the name contains the term, with upper and lower case distinct.
\<close>

theorem selectActions_limit_order:
  "\<exists>rows. selectActions dto tbl = Inr rows \<and>
      rows = repo_take (limit dto) (order_desc (filter
               (\<lambda>a. \<forall>s. search dto = Some s \<and> s \<noteq> [] \<longrightarrow>
                  like_match (''%'' @ s @ ''%'') (username (user a))) tbl)) \<and>
      length rows =
        (if limit dto = 0
         then length (filter (\<lambda>a. \<forall>s. search dto = Some s \<and> s \<noteq> [] \<longrightarrow>
                  like_match (''%'' @ s @ ''%'') (username (user a))) tbl)
         else min (limit dto)
                (length (filter (\<lambda>a. \<forall>s. search dto = Some s \<and> s \<noteq> [] \<longrightarrow>
                  like_match (''%'' @ s @ ''%'') (username (user a))) tbl))) \<and>
      (0 < limit dto \<longrightarrow> length rows \<le> limit dto) \<and>
      sorted_wrt (\<lambda>a b. performedAt b \<le> performedAt a) rows \<and>
      set rows \<subseteq> set tbl \<and>
      (\<forall>a\<in>set tbl. \<forall>b\<in>set rows.
         (\<forall>s. search dto = Some s \<and> s \<noteq> [] \<longrightarrow>
            like_match (''%'' @ s @ ''%'') (username (user a))) \<and> a \<notin> set rows \<longrightarrow>
         performedAt a \<le> performedAt b) \<and>
      (\<forall>s. search dto = Some s \<and> s \<noteq> [] \<longrightarrow>
         (\<forall>a\<in>set rows. like_match (''%'' @ s @ ''%'') (username (user a))) \<and>
         ((\<forall>c\<in>set s. \<not> like_meta c) \<longrightarrow> (\<forall>a\<in>set rows. sublist s (username (user a)))))"
proof -
  let ?cond = "\<lambda>a. \<forall>s. search dto = Some s \<and> s \<noteq> [] \<longrightarrow>
          like_match (''%'' @ s @ ''%'') (username (user a))"
  let ?all = "order_desc (filter ?cond tbl)"
  let ?rows = "repo_take (limit dto) ?all"
  have run: "selectActions dto tbl = Inr ?rows"
    by (rule selectActions_rows)
  have len_all: "length ?all = length (filter ?cond tbl)"
    by (simp add: order_desc_def)
  have len: "length ?rows =
      (if limit dto = 0 then length (filter ?cond tbl)
       else min (limit dto) (length (filter ?cond tbl)))"
    by (simp only: repo_take_length len_all)
  then have bound: "0 < limit dto \<longrightarrow> length ?rows \<le> limit dto"
    by simp
  have ord_all: "sorted_wrt (\<lambda>a b. performedAt b \<le> performedAt a) ?all"
    by (rule order_desc_sorted)
  then have ord: "sorted_wrt (\<lambda>a b. performedAt b \<le> performedAt a) ?rows"
    by (rule repo_take_sorted)
  have sub: "set ?rows \<subseteq> set (filter ?cond tbl)"
    using repo_take_subset [of "limit dto" ?all] by (simp only: order_desc_set)
  then have tbl: "set ?rows \<subseteq> set tbl"
    by auto
  have newest: "\<forall>a\<in>set tbl. \<forall>b\<in>set ?rows. ?cond a \<and> a \<notin> set ?rows \<longrightarrow>
      performedAt a \<le> performedAt b"
  proof (intro ballI impI)
    fix a b
    assume a: "a \<in> set tbl" and b: "b \<in> set ?rows" and c: "?cond a \<and> a \<notin> set ?rows"
    from a c have ain: "a \<in> set ?all"
      by (simp add: order_desc_set)
    from c have nin: "a \<notin> set ?rows"
      by simp
    from repo_take_newest [OF ord_all ain nin b] show "performedAt a \<le> performedAt b"
      by simp
  qed
  have match: "\<forall>a\<in>set ?rows. like_match (''%'' @ s @ ''%'') (username (user a))"
    if "search dto = Some s" "s \<noteq> []" for s
    using sub that by auto
  have contains: "\<forall>a\<in>set ?rows. sublist s (username (user a))"
    if "search dto = Some s" "s \<noteq> []" "\<forall>c\<in>set s. \<not> like_meta c" for s
    using match [OF that(1,2)] like_match_contains [OF that(3)] by blast
  have reading: "\<forall>s. search dto = Some s \<and> s \<noteq> [] \<longrightarrow>
         (\<forall>a\<in>set ?rows. like_match (''%'' @ s @ ''%'') (username (user a))) \<and>
         ((\<forall>c\<in>set s. \<not> like_meta c) \<longrightarrow> (\<forall>a\<in>set ?rows. sublist s (username (user a))))"
    using match contains by blast
  from run len bound ord tbl newest reading show ?thesis
    by (intro exI [of _ ?rows] conjI) (rule refl | assumption)+
qed

theorem selectActions_limit_order_witness:
  "search \<lparr>limit = 2, search = Some ''bo''\<rparr> = Some ''bo'' \<and> ''bo'' \<noteq> [] \<and>
   0 < limit \<lparr>limit = 2, search = Some ''bo''\<rparr> \<and>
   \<not> like_meta CHR ''b'' \<and> \<not> like_meta CHR ''o'' \<and>
   selectActions \<lparr>limit = 2, search = Some ''bo''\<rparr>
     [demo_action ''1'' 10 ''bob'', demo_action ''2'' 30 ''alice'', demo_action ''3'' 20 ''bob'',
      demo_action ''4'' 40 ''bobby''] =
     Inr [demo_action ''4'' 40 ''bobby'', demo_action ''3'' 20 ''bob''] \<and>
   length [demo_action ''4'' 40 ''bobby'', demo_action ''3'' 20 ''bob''] \<le> 2 \<and>
   sublist ''bo'' (username (user (demo_action ''4'' 40 ''bobby''))) \<and>
   sublist ''bo'' (username (user (demo_action ''3'' 20 ''bob'')))"
proof -
  let ?dto = "\<lparr>limit = 2, search = Some ''bo''\<rparr>"
  let ?tbl = "[demo_action ''1'' 10 ''bob'', demo_action ''2'' 30 ''alice'',
      demo_action ''3'' 20 ''bob'', demo_action ''4'' 40 ''bobby'']"
  let ?out = "[demo_action ''4'' 40 ''bobby'', demo_action ''3'' 20 ''bob'']"
  have m: "\<forall>c\<in>set ''bo''. \<not> like_meta c"
    by (simp add: like_meta_def backslash_def)
  have run: "selectActions ?dto ?tbl = Inr ?out"
    by (simp add: selectActions_def repo_take_def order_desc_def demo_action_def demo_user_def
        backslash_def numeral_2_eq_2)
  from selectActions_limit_order [of ?dto ?tbl]
  obtain rows where r: "selectActions ?dto ?tbl = Inr rows"
    and b: "0 < limit ?dto \<longrightarrow> length rows \<le> limit ?dto"
    and c: "\<forall>s. search ?dto = Some s \<and> s \<noteq> [] \<longrightarrow>
         (\<forall>a\<in>set rows. like_match (''%'' @ s @ ''%'') (username (user a))) \<and>
         ((\<forall>c\<in>set s. \<not> like_meta c) \<longrightarrow> (\<forall>a\<in>set rows. sublist s (username (user a))))"
    by (elim exE conjE) (rule that, assumption+)
  from r run have rows: "rows = ?out"
    by simp
  from b have len: "length ?out \<le> 2"
    by (simp add: rows)
  have "search ?dto = Some ''bo'' \<and> ''bo'' \<noteq> []"
    by simp
  with c m have "\<forall>a\<in>set rows. sublist ''bo'' (username (user a))"
    by blast
  then have sub: "sublist ''bo'' (username (user (demo_action ''4'' 40 ''bobby'')))"
      "sublist ''bo'' (username (user (demo_action ''3'' 20 ''bob'')))"
    by (simp_all add: rows)
  from m have m': "\<not> like_meta CHR ''b'' \<and> \<not> like_meta CHR ''o''"
    by simp
  from run len sub m' show ?thesis
    by simp
qed

text \<open>
  A \<open>limit\<close> of 0 does not bound the result: both rows of the table are returned. And
  a search term is a pattern: \<open>_\<close> returns the action of \<open>bob\<close>, whose name does not
  contain that character.
\<close>

theorem selectActions_limit_pattern_counterexample:
  "selectActions \<lparr>limit = 0, search = None\<rparr>
     [demo_action ''1'' 10 ''bob'', demo_action ''2'' 30 ''alice''] =
     Inr [demo_action ''2'' 30 ''alice'', demo_action ''1'' 10 ''bob''] \<and>
   selectActions \<lparr>limit = 5, search = Some ''_''\<rparr> [demo_action ''1'' 10 ''bob''] =
     Inr [demo_action ''1'' 10 ''bob''] \<and>
   \<not> sublist ''_'' (username (user (demo_action ''1'' 10 ''bob'')))"
  by (simp add: selectActions_def repo_take_def order_desc_def demo_action_def demo_user_def
      backslash_def sublist_Cons_right prefix_Cons)

end
